theory Spec2Isabelle
  imports Complex_Main
begin

section \<open>Python values\<close>

text \<open>
  The Adax climate platform (\<^verbatim>\<open>custom_components/adax2/climate.py\<close>) is Python: its
  variables hold values of any type, and the operations it applies to them (\<^verbatim>\<open>not x\<close>,
  \<^verbatim>\<open>x == y\<close>, \<^verbatim>\<open>float(x)\<close>, \<^verbatim>\<open>int(x)\<close>, \<^verbatim>\<open>x.get(k, d)\<close>, \<^verbatim>\<open>for r in x\<close>) are defined on
  all of them, raising where the type does not fit. The values that reach the module are
  those of a parsed JSON document and of the host's configuration: \<^verbatim>\<open>None\<close>, booleans,
  integers, floats, strings, lists and dictionaries with string keys.
\<close>

subsection \<open>Floats\<close>

text \<open>
  A Python float is an IEEE 754 binary64 number. A finite one is the rational number it
  denotes (the two zeros are not told apart: nothing in the module can observe the
  sign of a zero); the other values are the two infinities and NaN.
\<close>

datatype pyfloat = Finite rat | PosInf | NegInf | NaN

function log2_floor :: "int \<Rightarrow> int" where
  "log2_floor n = (if n < 2 then 0 else 1 + log2_floor (n div 2))"
  by pat_completeness auto
termination
  by (relation "measure nat") auto

declare log2_floor.simps [simp del]

definition pow2 :: "int \<Rightarrow> rat" where
  "pow2 e = (if 0 \<le> e then 2 ^ nat e else 1 / 2 ^ nat (- e))"

text \<open>For \<open>a > 0\<close>, the exponent \<open>e\<close> with \<open>2 ^ e \<le> a < 2 ^ (e + 1)\<close>.\<close>

definition exponent_of :: "rat \<Rightarrow> int" where
  "exponent_of a =
     (if 1 \<le> a then log2_floor \<lfloor>a\<rfloor>
      else (let k = log2_floor \<lfloor>1 / a\<rfloor>
            in if a = pow2 (- k) then - k else - k - 1))"

definition round_half_even :: "rat \<Rightarrow> int" where
  "round_half_even x =
     (let f = \<lfloor>x\<rfloor>; r = x - of_int f
      in if r < 1 / 2 then f else if 1 / 2 < r then f + 1
         else if even f then f else f + 1)"

text \<open>
  Rounding of an exact result to binary64, to nearest with ties to even: 53 significant
  bits, so the quantum of a number with exponent \<open>e\<close> is \<open>2 ^ (e - 52)\<close>, and never less
  than \<open>2 ^ - 1074\<close> (subnormal numbers). The result overflows to an infinity when it
  reaches \<open>2 ^ 1024\<close>: when the exponent is 1024 or more, or it is 1023 and the
  significand rounds up to \<open>2 ^ 53\<close>.
\<close>

definition round_double :: "rat \<Rightarrow> pyfloat" where
  "round_double x =
     (if x = 0 then Finite 0
      else (let a = \<bar>x\<bar>;
                e = max (exponent_of a) (- 1022);
                ulp = pow2 (e - 52);
                n = round_half_even (a / ulp)
            in if 1024 \<le> e \<or> (e = 1023 \<and> n = 2 ^ 53)
               then (if 0 < x then PosInf else NegInf)
               else Finite (if 0 < x then of_int n * ulp else - (of_int n * ulp))))"

text \<open>\<^verbatim>\<open>x * y\<close> on floats.\<close>

fun float_mul :: "pyfloat \<Rightarrow> pyfloat \<Rightarrow> pyfloat" where
  "float_mul (Finite a) (Finite b) = round_double (a * b)"
| "float_mul NaN _ = NaN"
| "float_mul _ NaN = NaN"
| "float_mul (Finite a) PosInf = (if a = 0 then NaN else if 0 < a then PosInf else NegInf)"
| "float_mul (Finite a) NegInf = (if a = 0 then NaN else if 0 < a then NegInf else PosInf)"
| "float_mul PosInf (Finite b) = (if b = 0 then NaN else if 0 < b then PosInf else NegInf)"
| "float_mul NegInf (Finite b) = (if b = 0 then NaN else if 0 < b then NegInf else PosInf)"
| "float_mul PosInf PosInf = PosInf"
| "float_mul PosInf NegInf = NegInf"
| "float_mul NegInf PosInf = NegInf"
| "float_mul NegInf NegInf = PosInf"

text \<open>
  The exceptions of the module are those an \<^verbatim>\<open>except Exception\<close> clause catches: the
  built-in ones its own expressions can raise, and whatever a library raises.
\<close>

datatype exn =
    TypeError
  | ValueError
  | OverflowError
  | AttributeError
  | ZeroDivisionError
  | HTTPError nat
  | LibraryError string

text \<open>\<^verbatim>\<open>x / y\<close> on floats; a zero divisor raises.\<close>

fun float_truediv :: "pyfloat \<Rightarrow> pyfloat \<Rightarrow> exn + pyfloat" where
  "float_truediv x (Finite b) =
     (if b = 0 then Inl ZeroDivisionError
      else (case x of
              Finite a \<Rightarrow> Inr (round_double (a / b))
            | PosInf \<Rightarrow> Inr (if 0 < b then PosInf else NegInf)
            | NegInf \<Rightarrow> Inr (if 0 < b then NegInf else PosInf)
            | NaN \<Rightarrow> Inr NaN))"
| "float_truediv (Finite a) PosInf = Inr (Finite 0)"
| "float_truediv (Finite a) NegInf = Inr (Finite 0)"
| "float_truediv _ _ = Inr NaN"

text \<open>\<^verbatim>\<open>int(x)\<close> on a float: truncation toward zero; an infinity or NaN raises.\<close>

fun int_of_float :: "pyfloat \<Rightarrow> exn + int" where
  "int_of_float (Finite q) = Inr (if 0 \<le> q then \<lfloor>q\<rfloor> else \<lceil>q\<rceil>)"
| "int_of_float PosInf = Inl OverflowError"
| "int_of_float NegInf = Inl OverflowError"
| "int_of_float NaN = Inl ValueError"

text \<open>
  \<^verbatim>\<open>round(x)\<close> on a float, the rounding the specification names for the wire value: to
  the nearest integer, ties to even.
\<close>

fun py_round :: "pyfloat \<Rightarrow> exn + int" where
  "py_round (Finite q) = Inr (round_half_even q)"
| "py_round PosInf = Inl OverflowError"
| "py_round NegInf = Inl OverflowError"
| "py_round NaN = Inl ValueError"

text \<open>
  The float a decimal literal of the source text denotes (\<^verbatim>\<open>21.37\<close>, \<^verbatim>\<open>22.00\<close>): the
  binary64 number nearest to the decimal.
\<close>

definition float_literal :: "rat \<Rightarrow> pyfloat" where
  "float_literal q = round_double q"

subsection \<open>Values\<close>

datatype pyval =
    PNone
  | PBool bool
  | PInt int
  | PFloat pyfloat
  | PStr string
  | PList "pyval list"
  | PDict "(string \<times> pyval) list"

text \<open>Truth value of an object, as \<^verbatim>\<open>not x\<close> and \<^verbatim>\<open>if x\<close> take it.\<close>

fun truthy :: "pyval \<Rightarrow> bool" where
  "truthy PNone = False"
| "truthy (PBool b) = b"
| "truthy (PInt n) = (n \<noteq> 0)"
| "truthy (PFloat f) = (f \<noteq> Finite 0)"
| "truthy (PStr s) = (s \<noteq> [])"
| "truthy (PList xs) = (xs \<noteq> [])"
| "truthy (PDict kvs) = (kvs \<noteq> [])"

text \<open>
  \<^verbatim>\<open>x == y\<close>. Booleans, integers and floats compare by their numeric value, NaN
  equals nothing; lists compare element by element; dictionaries are equal when they
  have as many entries and every entry of the first has an equal one in the second.
\<close>

fun py_number :: "pyval \<Rightarrow> pyfloat option" where
  "py_number (PBool b) = Some (Finite (if b then 1 else 0))"
| "py_number (PInt n) = Some (Finite (of_int n))"
| "py_number (PFloat f) = Some f"
| "py_number _ = None"

definition num_eq :: "pyfloat \<Rightarrow> pyval \<Rightarrow> bool" where
  "num_eq x b = (case py_number b of None \<Rightarrow> False | Some y \<Rightarrow> x \<noteq> NaN \<and> x = y)"

fun py_eq :: "pyval \<Rightarrow> pyval \<Rightarrow> bool"
  and py_eq_list :: "pyval list \<Rightarrow> pyval list \<Rightarrow> bool"
  and py_eq_items :: "(string \<times> pyval) list \<Rightarrow> (string \<times> pyval) list \<Rightarrow> bool" where
  "py_eq PNone b = (b = PNone)"
| "py_eq (PBool x) b = num_eq (Finite (if x then 1 else 0)) b"
| "py_eq (PInt n) b = num_eq (Finite (of_int n)) b"
| "py_eq (PFloat f) b = num_eq f b"
| "py_eq (PStr s) b = (b = PStr s)"
| "py_eq (PList xs) b = (case b of PList ys \<Rightarrow> py_eq_list xs ys | _ \<Rightarrow> False)"
| "py_eq (PDict kvs) b =
     (case b of PDict kws \<Rightarrow> length kvs = length kws \<and> py_eq_items kvs kws | _ \<Rightarrow> False)"
| "py_eq_list [] ys = (ys = [])"
| "py_eq_list (x # xs) ys =
     (case ys of [] \<Rightarrow> False | y # ys' \<Rightarrow> py_eq x y \<and> py_eq_list xs ys')"
| "py_eq_items [] kws = True"
| "py_eq_items ((k, v) # kvs) kws =
     ((case map_of kws k of None \<Rightarrow> False | Some w \<Rightarrow> py_eq v w) \<and> py_eq_items kvs kws)"

text \<open>
  \<^verbatim>\<open>float(x)\<close>. A string is parsed by the interpreter; the parser is the parameter
  \<open>float_of_str\<close>. An integer too large for a float raises.
\<close>

fun py_float :: "(string \<Rightarrow> exn + pyfloat) \<Rightarrow> pyval \<Rightarrow> exn + pyfloat" where
  "py_float float_of_str PNone = Inl TypeError"
| "py_float float_of_str (PBool b) = Inr (Finite (if b then 1 else 0))"
| "py_float float_of_str (PInt n) =
     (case round_double (of_int n) of Finite q \<Rightarrow> Inr (Finite q) | _ \<Rightarrow> Inl OverflowError)"
| "py_float float_of_str (PFloat f) = Inr f"
| "py_float float_of_str (PStr s) = float_of_str s"
| "py_float float_of_str (PList xs) = Inl TypeError"
| "py_float float_of_str (PDict kvs) = Inl TypeError"

text \<open>\<^verbatim>\<open>x.get(k, d)\<close>: only a dictionary has the method.\<close>

fun dict_get :: "pyval \<Rightarrow> string \<Rightarrow> pyval \<Rightarrow> exn + pyval" where
  "dict_get (PDict kvs) k d = Inr (case map_of kvs k of None \<Rightarrow> d | Some v \<Rightarrow> v)"
| "dict_get _ k d = Inl AttributeError"

text \<open>
  The elements \<^verbatim>\<open>for r in x\<close> runs over: those of a list, the keys of a dictionary,
  the characters of a string; anything else is not iterable.
\<close>

fun py_iter :: "pyval \<Rightarrow> exn + pyval list" where
  "py_iter (PList xs) = Inr xs"
| "py_iter (PDict kvs) = Inr (map (\<lambda>(k, v). PStr k) kvs)"
| "py_iter (PStr s) = Inr (map (\<lambda>c. PStr [c]) s)"
| "py_iter _ = Inl TypeError"

section \<open>The outside world\<close>

text \<open>
  The module reaches the network through two libraries, \<^verbatim>\<open>sanction\<close> (the OAuth2
  password grant) and \<^verbatim>\<open>requests\<close> (HTTP). Neither is part of the module: each call
  is a parameter that returns either the exception the library raises or its result.
  A response has the status code of the answer and answers \<^verbatim>\<open>json()\<close> (the parsed body,
  or the exception of the parser).
\<close>

datatype header = Authorization_Bearer pyval

record response =
  status_code :: nat
  json :: "exn + pyval"

text \<open>
  \<^verbatim>\<open>response.raise_for_status()\<close> of the \<^verbatim>\<open>requests\<close> library raises \<^verbatim>\<open>HTTPError\<close> for
  a client error (4xx) and for a server error (5xx), and returns for every other status:
  the result is the exception raised, if any. Redirects that name a location are
  followed by the library; an answer of the 1xx or 3xx range that reaches the caller
  passes this check like one of the 2xx range.
\<close>

definition raise_for_status :: "response \<Rightarrow> exn option" where
  "raise_for_status resp =
     (if 400 \<le> status_code resp \<and> status_code resp < 600
      then Some (HTTPError (status_code resp)) else None)"

record env =
  request_token :: "string \<Rightarrow> pyval \<Rightarrow> pyval \<Rightarrow> exn + pyval"
  requests_get :: "string \<Rightarrow> header \<Rightarrow> exn + response"
  requests_post :: "string \<Rightarrow> pyval \<Rightarrow> header \<Rightarrow> exn + response"
  float_of_str :: "string \<Rightarrow> exn + pyfloat"

text \<open>
  \<open>request_token env url username password\<close> stands for the three lines
  \<^verbatim>\<open>client = sanction.Client(token_endpoint=url)\<close>,
  \<^verbatim>\<open>client.request_token(grant_type="password", username=..., password=...)\<close> and the
  read of \<^verbatim>\<open>client.access_token\<close>: its result is the value of that attribute.

  Everything the module does to the world is recorded, in order, in a trace: the
  network calls, the lines it logs and the re-render it asks of the host.
\<close>

datatype logline =
    Debug_token_obtained pyval
  | Error_token exn
  | Error_no_token_rooms
  | Error_get_rooms exn
  | Error_no_token_control
  | Error_set_temperature pyval exn

datatype event =
    RequestToken string pyval pyval
  | RequestsGet string header
  | RequestsPost string pyval header
  | Log logline
  | ScheduleUpdateHaState

fun is_network_call :: "event \<Rightarrow> bool" where
  "is_network_call (RequestToken url u p) = True"
| "is_network_call (RequestsGet url h) = True"
| "is_network_call (RequestsPost url body h) = True"
| "is_network_call (Log l) = False"
| "is_network_call ScheduleUpdateHaState = False"

fun is_error_line :: "event \<Rightarrow> bool" where
  "is_error_line (Log (Debug_token_obtained tok)) = False"
| "is_error_line (Log l) = True"
| "is_error_line e = False"

section \<open>AdaxAPI\<close>

record adax_api =
  api_url :: string
  token :: pyval
  client_id :: pyval
  client_password :: pyval

text \<open>
  A method returns its result (\<open>Inl\<close> the exception that escapes it), the client
  after the call and the trace after the call.
\<close>

definition AdaxAPI_refresh_token ::
  "env \<Rightarrow> adax_api \<Rightarrow> event list \<Rightarrow> (exn + unit) \<times> adax_api \<times> event list" where
  "AdaxAPI_refresh_token env a tr =
     (let token_url = api_url a @ ''/auth/token'';
          tr1 = tr @ [RequestToken token_url (client_id a) (client_password a)]
      in case request_token env token_url (client_id a) (client_password a) of
           Inr access_token \<Rightarrow>
             (Inr (), a\<lparr>token := access_token\<rparr>, tr1 @ [Log (Debug_token_obtained access_token)])
         | Inl err \<Rightarrow>
             (Inr (), a\<lparr>token := PNone\<rparr>, tr1 @ [Log (Error_token err)]))"

definition AdaxAPI_init ::
  "env \<Rightarrow> pyval \<Rightarrow> pyval \<Rightarrow> pyval \<Rightarrow> event list \<Rightarrow> (exn + unit) \<times> adax_api \<times> event list" where
  "AdaxAPI_init env tok cid cpw tr =
     (let a = \<lparr>api_url = ''https://api-1.adax.no/client-api'', token = tok,
                client_id = cid, client_password = cpw\<rparr>
      in if \<not> truthy (token a) \<and> truthy (client_id a) \<and> truthy (client_password a)
         then AdaxAPI_refresh_token env a tr
         else (Inr (), a, tr))"

definition AdaxAPI_get_rooms ::
  "env \<Rightarrow> adax_api \<Rightarrow> event list \<Rightarrow> (exn + pyval) \<times> adax_api \<times> event list" where
  "AdaxAPI_get_rooms env a tr =
     (case (if \<not> truthy (token a) \<and> truthy (client_id a) \<and> truthy (client_password a)
            then AdaxAPI_refresh_token env a tr
            else (Inr (), a, tr)) of
        (Inl e, a1, tr1) \<Rightarrow> (Inl e, a1, tr1)
      | (Inr u, a1, tr1) \<Rightarrow>
          if \<not> truthy (token a1) then (Inr (PList []), a1, tr1 @ [Log Error_no_token_rooms])
          else (let headers = Authorization_Bearer (token a1);
                    url = api_url a1 @ ''/rest/v1/content/'';
                    tr2 = tr1 @ [RequestsGet url headers]
                in case (case requests_get env url headers of
                           Inl e \<Rightarrow> Inl e
                         | Inr resp \<Rightarrow>
                             (case raise_for_status resp of
                                Some e \<Rightarrow> Inl e
                              | None \<Rightarrow>
                                  (case json resp of
                                     Inl e \<Rightarrow> Inl e
                                   | Inr data \<Rightarrow> dict_get data ''rooms'' (PList [])))) of
                     Inr rooms \<Rightarrow> (Inr rooms, a1, tr2)
                   | Inl err \<Rightarrow> (Inr (PList []), a1, tr2 @ [Log (Error_get_rooms err)])))"

definition AdaxAPI_set_temperature ::
  "env \<Rightarrow> adax_api \<Rightarrow> event list \<Rightarrow> pyval \<Rightarrow> pyval \<Rightarrow> (exn + bool) \<times> adax_api \<times> event list" where
  "AdaxAPI_set_temperature env a tr room_id temperature =
     (case (if \<not> truthy (token a) \<and> truthy (client_id a) \<and> truthy (client_password a)
            then AdaxAPI_refresh_token env a tr
            else (Inr (), a, tr)) of
        (Inl e, a1, tr1) \<Rightarrow> (Inl e, a1, tr1)
      | (Inr u, a1, tr1) \<Rightarrow>
          if \<not> truthy (token a1) then (Inr False, a1, tr1 @ [Log Error_no_token_control])
          else (let headers = Authorization_Bearer (token a1)
                in case py_float (float_of_str env) temperature of
                     Inl e \<Rightarrow> (Inl e, a1, tr1)
                   | Inr f \<Rightarrow>
                       (case int_of_float (float_mul f (Finite 100)) of
                          Inl e \<Rightarrow> (Inl e, a1, tr1)
                        | Inr n \<Rightarrow>
                            (let payload =
                                   PDict [(''rooms'',
                                     PList [PDict [(''id'', room_id),
                                                   (''targetTemperature'', PInt n)]])];
                                 url = api_url a1 @ ''/rest/v1/control/'';
                                 tr2 = tr1 @ [RequestsPost url payload headers]
                             in case (case requests_post env url payload headers of
                                        Inl e \<Rightarrow> Inl e
                                      | Inr resp \<Rightarrow>
                                          (case raise_for_status resp of
                                             Some e \<Rightarrow> Inl e
                                           | None \<Rightarrow> Inr True)) of
                                  Inr ok \<Rightarrow> (Inr ok, a1, tr2)
                                | Inl err \<Rightarrow>
                                    (Inr False, a1,
                                     tr2 @ [Log (Error_set_temperature room_id err)])))))"

section \<open>AdaxClimate\<close>

datatype hvac = HVAC_MODE_OFF | HVAC_MODE_HEAT

text \<open>
  The name of an entity is the \<^verbatim>\<open>name\<close> of its room, or \<^verbatim>\<open>f"Adax Element {room_id}"\<close>
  (kept unformatted) when the room has none.
\<close>

datatype entity_name = Room_name pyval | Adax_Element pyval

record adax_climate =
  room :: pyval
  room_id :: pyval
  name :: entity_name
  current_temperature :: pyval
  target_temperature :: pyval
  hvac_mode :: hvac

text \<open>
  Every entity holds a reference to the one client it was made with, so the client is
  not a field here: the methods take it and return it, as those of the client do.
\<close>

definition AdaxClimate_init :: "pyval \<Rightarrow> exn + adax_climate" where
  "AdaxClimate_init rm =
     (case dict_get rm ''id'' PNone of
        Inl e \<Rightarrow> Inl e
      | Inr rid \<Rightarrow>
          (case rm of
             PDict kvs \<Rightarrow>
               Inr \<lparr>room = rm, room_id = rid,
                    name = (case map_of kvs ''name'' of
                              None \<Rightarrow> Adax_Element rid | Some n \<Rightarrow> Room_name n),
                    current_temperature = PNone, target_temperature = PNone,
                    hvac_mode = HVAC_MODE_HEAT\<rparr>
           | _ \<Rightarrow> Inl AttributeError))"

definition hvac_modes :: "adax_climate \<Rightarrow> hvac list" where
  "hvac_modes d = [HVAC_MODE_OFF, HVAC_MODE_HEAT]"

text \<open>\<^verbatim>\<open>set_temperature(**kwargs)\<close>: the keyword arguments are a dictionary.\<close>

definition AdaxClimate_set_temperature ::
  "env \<Rightarrow> adax_climate \<Rightarrow> adax_api \<Rightarrow> event list \<Rightarrow> (string \<times> pyval) list
     \<Rightarrow> (exn + unit) \<times> adax_climate \<times> adax_api \<times> event list" where
  "AdaxClimate_set_temperature env d a tr kwargs =
     (let temperature = (case map_of kwargs ''temperature'' of None \<Rightarrow> PNone | Some v \<Rightarrow> v)
      in if temperature = PNone then (Inr (), d, a, tr)
         else (case AdaxAPI_set_temperature env a tr (room_id d) temperature of
                 (Inl e, a1, tr1) \<Rightarrow> (Inl e, d, a1, tr1)
               | (Inr ok, a1, tr1) \<Rightarrow>
                   if ok
                   then (Inr (), d\<lparr>target_temperature := temperature\<rparr>, a1,
                         tr1 @ [ScheduleUpdateHaState])
                   else (Inr (), d, a1, tr1)))"

text \<open>
  The body of the loop of \<^verbatim>\<open>update\<close> for the room that matches. An exception leaves
  the entity as the assignments before it made it.
\<close>

definition update_room ::
  "env \<Rightarrow> (string \<times> pyval) list \<Rightarrow> adax_climate \<Rightarrow> (exn + unit) \<times> adax_climate" where
  "update_room env kvs d =
     (case (if map_of kvs ''temperature'' \<noteq> None
            then (case py_float (float_of_str env)
                         (case map_of kvs ''temperature'' of None \<Rightarrow> PInt 0 | Some v \<Rightarrow> v) of
                    Inl e \<Rightarrow> Inl e
                  | Inr f \<Rightarrow>
                      (case float_truediv f (Finite 100) of
                         Inl e \<Rightarrow> Inl e
                       | Inr c \<Rightarrow> Inr (d\<lparr>current_temperature := PFloat c\<rparr>)))
            else Inr d) of
        Inl e \<Rightarrow> (Inl e, d)
      | Inr d1 \<Rightarrow>
          if map_of kvs ''targetTemperature'' \<noteq> None
          then (case py_float (float_of_str env)
                       (case map_of kvs ''targetTemperature'' of None \<Rightarrow> PInt 0 | Some v \<Rightarrow> v) of
                  Inl e \<Rightarrow> (Inl e, d1)
                | Inr f \<Rightarrow>
                    (case float_truediv f (Finite 100) of
                       Inl e \<Rightarrow> (Inl e, d1)
                     | Inr c \<Rightarrow> (Inr (), d1\<lparr>target_temperature := PFloat c\<rparr>)))
          else (Inr (), d1))"

text \<open>
  The loop \<^verbatim>\<open>for room in rooms\<close>: \<^verbatim>\<open>room.get("id")\<close> needs a dictionary; the first
  room whose id equals that of the entity is used and ends the loop.
\<close>

fun update_loop ::
  "env \<Rightarrow> pyval list \<Rightarrow> adax_climate \<Rightarrow> (exn + unit) \<times> adax_climate" where
  "update_loop env [] d = (Inr (), d)"
| "update_loop env (rm # rooms) d =
     (case rm of
        PDict kvs \<Rightarrow>
          if py_eq (case map_of kvs ''id'' of None \<Rightarrow> PNone | Some v \<Rightarrow> v) (room_id d)
          then update_room env kvs d
          else update_loop env rooms d
      | _ \<Rightarrow> (Inl AttributeError, d))"

definition AdaxClimate_update ::
  "env \<Rightarrow> adax_climate \<Rightarrow> adax_api \<Rightarrow> event list
     \<Rightarrow> (exn + unit) \<times> adax_climate \<times> adax_api \<times> event list" where
  "AdaxClimate_update env d a tr =
     (case AdaxAPI_get_rooms env a tr of
        (Inl e, a1, tr1) \<Rightarrow> (Inl e, d, a1, tr1)
      | (Inr rooms, a1, tr1) \<Rightarrow>
          (case py_iter rooms of
             Inl e \<Rightarrow> (Inl e, d, a1, tr1)
           | Inr rs \<Rightarrow> (case update_loop env rs d of (r, d1) \<Rightarrow> (r, d1, a1, tr1))))"

text \<open>
  The host calls \<^verbatim>\<open>update\<close> and \<^verbatim>\<open>set_temperature\<close> in any order, each time against
  whatever the network answers then; an exception of one call does not stop the next.
\<close>

datatype operation = Poll | SetTarget "(string \<times> pyval) list"

fun run ::
  "(env \<times> operation) list \<Rightarrow> adax_climate \<times> adax_api \<times> event list
     \<Rightarrow> adax_climate \<times> adax_api \<times> event list" where
  "run [] s = s"
| "run ((env, Poll) # ops) (d, a, tr) =
     (case AdaxClimate_update env d a tr of (r, s1) \<Rightarrow> run ops s1)"
| "run ((env, SetTarget kwargs) # ops) (d, a, tr) =
     (case AdaxClimate_set_temperature env d a tr kwargs of (r, s1) \<Rightarrow> run ops s1)"

section \<open>The rooms of a response\<close>

text \<open>
  The content endpoint answers with an array of rooms: every element is an object, and
  its id is the value of its key \<^verbatim>\<open>id\<close> (\<^verbatim>\<open>None\<close> without the key).
\<close>

fun is_dict :: "pyval \<Rightarrow> bool" where
  "is_dict (PDict kvs) = True"
| "is_dict _ = False"

fun entry_id :: "pyval \<Rightarrow> pyval" where
  "entry_id (PDict kvs) = (case map_of kvs ''id'' of None \<Rightarrow> PNone | Some v \<Rightarrow> v)"
| "entry_id _ = PNone"

text \<open>
  What \<^verbatim>\<open>get_rooms\<close> returns is not checked against this shape. The elements of a
  result are those the loop of \<^verbatim>\<open>update\<close> runs over; a result that is not iterable has
  none.
\<close>

definition py_elements :: "pyval \<Rightarrow> pyval list" where
  "py_elements v = (case py_iter v of Inl e \<Rightarrow> [] | Inr rs \<Rightarrow> rs)"

section \<open>Sample values\<close>

definition ok_response :: "pyval \<Rightarrow> response" where
  "ok_response body = \<lparr>status_code = 200, json = Inr body\<rparr>"

definition room5 :: pyval where
  "room5 =
     PDict [(''id'', PInt 5), (''temperature'', PInt 2137), (''targetTemperature'', PInt 2200)]"

definition room7 :: pyval where
  "room7 = PDict [(''id'', PInt 7), (''name'', PStr ''Hall'')]"

text \<open>A network on which every call succeeds, and one on which every call fails.\<close>

definition online_env :: env where
  "online_env =
     \<lparr>request_token = (\<lambda>url u p. Inr (PStr ''t0k3n'')),
      requests_get = (\<lambda>url h. Inr (ok_response (PDict [(''rooms'', PList [room7, room5])]))),
      requests_post = (\<lambda>url body h. Inr (ok_response (PDict []))),
      float_of_str = (\<lambda>s. Inl ValueError)\<rparr>"

definition offline_env :: env where
  "offline_env =
     \<lparr>request_token = (\<lambda>url u p. Inl (LibraryError ''ConnectionError'')),
      requests_get = (\<lambda>url h. Inl (LibraryError ''ConnectionError'')),
      requests_post = (\<lambda>url body h. Inl (LibraryError ''ConnectionError'')),
      float_of_str = (\<lambda>s. Inl ValueError)\<rparr>"

definition api_with_token :: adax_api where
  "api_with_token =
     \<lparr>api_url = ''https://api-1.adax.no/client-api'', token = PStr ''t0k3n'',
      client_id = PNone, client_password = PNone\<rparr>"

definition api_with_password :: adax_api where
  "api_with_password =
     \<lparr>api_url = ''https://api-1.adax.no/client-api'', token = PNone,
      client_id = PStr ''112233'', client_password = PStr ''pw''\<rparr>"

definition api_without_credentials :: adax_api where
  "api_without_credentials =
     \<lparr>api_url = ''https://api-1.adax.no/client-api'', token = PNone,
      client_id = PNone, client_password = PNone\<rparr>"

definition device5 :: adax_climate where
  "device5 =
     \<lparr>room = room5, room_id = PInt 5, name = Adax_Element (PInt 5),
      current_temperature = PNone, target_temperature = PNone, hvac_mode = HVAC_MODE_HEAT\<rparr>"

definition device9 :: adax_climate where
  "device9 =
     \<lparr>room = PDict [(''id'', PInt 9)], room_id = PInt 9, name = Adax_Element (PInt 9),
      current_temperature = PFloat (Finite 19), target_temperature = PFloat (Finite 20),
      hvac_mode = HVAC_MODE_HEAT\<rparr>"

text \<open>A network that answers every request with the status 500.\<close>

definition http_error_env :: env where
  "http_error_env =
     \<lparr>request_token = (\<lambda>url u p. Inl (LibraryError ''HTTPError 500'')),
      requests_get =
        (\<lambda>url h. Inr \<lparr>status_code = 500, json = Inl (LibraryError ''JSONDecodeError'')\<rparr>),
      requests_post =
        (\<lambda>url body h. Inr \<lparr>status_code = 500,
                            json = Inl (LibraryError ''JSONDecodeError'')\<rparr>),
      float_of_str = (\<lambda>s. Inl ValueError)\<rparr>"

text \<open>A network whose only room is room 9, reported without its target temperature.\<close>

definition partial_env :: env where
  "partial_env =
     \<lparr>request_token = (\<lambda>url u p. Inr (PStr ''t0k3n'')),
      requests_get =
        (\<lambda>url h. Inr (ok_response
           (PDict [(''rooms'', PList [PDict [(''id'', PInt 9), (''temperature'', PInt 2200)]])]))),
      requests_post = (\<lambda>url body h. Inr (ok_response (PDict []))),
      float_of_str = (\<lambda>s. Inl ValueError)\<rparr>"

text \<open>
  A network that answers the content request with the status 300 (multiple choices,
  no location to follow) and a body that lists the rooms.
\<close>

definition multiple_choices_env :: env where
  "multiple_choices_env =
     \<lparr>request_token = (\<lambda>url u p. Inr (PStr ''t0k3n'')),
      requests_get =
        (\<lambda>url h. Inr \<lparr>status_code = 300,
                       json = Inr (PDict [(''rooms'', PList [room7, room5])])\<rparr>),
      requests_post = (\<lambda>url body h. Inr (ok_response (PDict []))),
      float_of_str = (\<lambda>s. Inl ValueError)\<rparr>"

text \<open>
  A network whose token endpoint answers without an access token and without an
  exception of the library: \<^verbatim>\<open>client.access_token\<close> is still \<^verbatim>\<open>None\<close> after the call.
\<close>

definition no_token_env :: env where
  "no_token_env =
     \<lparr>request_token = (\<lambda>url u p. Inr PNone),
      requests_get = (\<lambda>url h. Inl (LibraryError ''ConnectionError'')),
      requests_post = (\<lambda>url body h. Inl (LibraryError ''ConnectionError'')),
      float_of_str = (\<lambda>s. Inl ValueError)\<rparr>"

text \<open>A network that lists two entries with the id 5, the second being \<open>room5\<close>.\<close>

definition duplicate_env :: env where
  "duplicate_env =
     \<lparr>request_token = (\<lambda>url u p. Inr (PStr ''t0k3n'')),
      requests_get =
        (\<lambda>url h. Inr (ok_response
           (PDict [(''rooms'',
              PList [PDict [(''id'', PInt 5), (''temperature'', PInt 1000)], room5])]))),
      requests_post = (\<lambda>url body h. Inr (ok_response (PDict []))),
      float_of_str = (\<lambda>s. Inl ValueError)\<rparr>"

text \<open>
  Two networks whose content body is an object, but not one of the expected shape:
  \<^verbatim>\<open>{"rooms": null}\<close> and \<^verbatim>\<open>{"rooms": [1]}\<close>.
\<close>

definition null_rooms_env :: env where
  "null_rooms_env =
     \<lparr>request_token = (\<lambda>url u p. Inr (PStr ''t0k3n'')),
      requests_get = (\<lambda>url h. Inr (ok_response (PDict [(''rooms'', PNone)]))),
      requests_post = (\<lambda>url body h. Inr (ok_response (PDict []))),
      float_of_str = (\<lambda>s. Inl ValueError)\<rparr>"

definition number_rooms_env :: env where
  "number_rooms_env =
     \<lparr>request_token = (\<lambda>url u p. Inr (PStr ''t0k3n'')),
      requests_get = (\<lambda>url h. Inr (ok_response (PDict [(''rooms'', PList [PInt 1])]))),
      requests_post = (\<lambda>url body h. Inr (ok_response (PDict []))),
      float_of_str = (\<lambda>s. Inl ValueError)\<rparr>"

section \<open>Arithmetic of the wire values\<close>

lemma float_mul_21_4375: "float_mul (Finite (343 / 16)) (Finite 100) = Finite (8575 / 4)"
  by code_simp

lemma int_of_float_2143_75: "int_of_float (Finite (8575 / 4)) = Inr 2143"
  by code_simp

lemma py_round_2143_75: "py_round (Finite (8575 / 4)) = Inr 2144"
  by code_simp

lemma float_mul_21_5: "float_mul (Finite (43 / 2)) (Finite 100) = Finite 2150"
  by code_simp

lemma round_double_2137: "round_double 2137 = Finite 2137"
  by code_simp

lemma round_double_2200: "round_double 2200 = Finite 2200"
  by code_simp

lemma round_double_22: "round_double 22 = Finite 22"
  by code_simp

lemma round_double_21_37:
  "round_double (2137 / 100) = Finite (6015120252306719 / 281474976710656)"
  by code_simp

text \<open>
  The product is rounded before it is truncated: \<^verbatim>\<open>0.3 * 100\<close> is the float 30, and
  \<^verbatim>\<open>19.99 * 100\<close> is a float below 1999, which the cast takes to 1998.
\<close>

lemma float_mul_0_3:
  "float_literal (3 / 10) = Finite (5404319552844595 / 18014398509481984)
   \<and> float_mul (Finite (5404319552844595 / 18014398509481984)) (Finite 100) = Finite 30"
  by code_simp

lemma int_of_float_19_99:
  "float_literal (1999 / 100) = Finite (5626684784446013 / 281474976710656)
   \<and> int_of_float (float_mul (Finite (5626684784446013 / 281474976710656)) (Finite 100)) =
       Inr 1998"
  by code_simp

lemma int_of_float_Inr:
  "int_of_float x = Inr n \<Longrightarrow> \<exists>q. x = Finite q \<and> n = (if 0 \<le> q then \<lfloor>q\<rfloor> else \<lceil>q\<rceil>)"
  by (cases x) auto

section \<open>The target temperature on the wire\<close>

text \<open>
  C1, as stated: the \<^verbatim>\<open>targetTemperature\<close> of the request body is \<^verbatim>\<open>round(t * 100)\<close>.
  It is not. For \<open>t = 21.4375\<close>, a float whose product with 100 is the float 2143.75
  exactly, the body carries 2143, and \<^verbatim>\<open>round\<close> of the product is 2144.
\<close>

theorem set_temperature_not_rounded:
  "AdaxAPI_set_temperature online_env api_with_token [] (PInt 5) (PFloat (Finite (343 / 16))) =
     (Inr True, api_with_token,
      [RequestsPost ''https://api-1.adax.no/client-api/rest/v1/control/''
         (PDict [(''rooms'',
            PList [PDict [(''id'', PInt 5), (''targetTemperature'', PInt 2143)]])])
         (Authorization_Bearer (PStr ''t0k3n''))])
   \<and> py_round (float_mul (Finite (343 / 16)) (Finite 100)) = Inr 2144"
  by (simp add: AdaxAPI_set_temperature_def online_env_def api_with_token_def ok_response_def raise_for_status_def
      float_mul_21_4375 int_of_float_2143_75 py_round_2143_75 Let_def
      del: float_mul.simps int_of_float.simps py_round.simps)

text \<open>
  C1, amended: whenever \<^verbatim>\<open>AdaxAPI.set_temperature\<close> posts a request, the temperature
  converts to a float \<open>f\<close>, the float product \<open>f * 100\<close> is finite, and the
  \<^verbatim>\<open>targetTemperature\<close> of the body is that product truncated toward zero (the body
  being the room's id and this integer, and nothing else). For \<open>t = 21.5\<close> it is 2150.
\<close>

theorem set_temperature_truncates:
  assumes "AdaxAPI_set_temperature env a tr rid t = (r, a', tr')"
    and "RequestsPost url body h \<in> set (drop (length tr) tr')"
  shows "(\<exists>f q. py_float (float_of_str env) t = Inr f \<and> float_mul f (Finite 100) = Finite q \<and>
            body = PDict [(''rooms'', PList [PDict [(''id'', rid),
                     (''targetTemperature'', PInt (if 0 \<le> q then \<lfloor>q\<rfloor> else \<lceil>q\<rceil>))]])])
         \<and> (t = PFloat (Finite (43 / 2)) \<longrightarrow>
              body = PDict [(''rooms'',
                       PList [PDict [(''id'', rid), (''targetTemperature'', PInt 2150)]])])"
proof -
  from assms obtain f n where
    pf: "py_float (float_of_str env) t = Inr f"
    and ni: "int_of_float (float_mul f (Finite 100)) = Inr n"
    and b: "body = PDict [(''rooms'', PList [PDict [(''id'', rid), (''targetTemperature'', PInt n)]])]"
    by (auto simp: AdaxAPI_set_temperature_def AdaxAPI_refresh_token_def Let_def
        split: if_splits sum.splits option.splits)
  from int_of_float_Inr [OF ni] obtain q where
    q: "float_mul f (Finite 100) = Finite q"
    and n: "n = (if 0 \<le> q then \<lfloor>q\<rfloor> else \<lceil>q\<rceil>)"
    by blast
  have "n = 2150" if "t = PFloat (Finite (43 / 2))"
  proof -
    from that pf have "f = Finite (43 / 2)" by simp
    with q float_mul_21_5 have "q = 2150" by simp
    with n show ?thesis by simp
  qed
  with pf q n b show ?thesis by blast
qed

theorem set_temperature_truncates_witness:
  "AdaxAPI_set_temperature online_env api_with_token [] (PInt 5) (PFloat (Finite (43 / 2))) =
     (Inr True, api_with_token,
      [RequestsPost ''https://api-1.adax.no/client-api/rest/v1/control/''
         (PDict [(''rooms'',
            PList [PDict [(''id'', PInt 5), (''targetTemperature'', PInt 2150)]])])
         (Authorization_Bearer (PStr ''t0k3n''))])
   \<and> (\<exists>f q. py_float (float_of_str online_env) (PFloat (Finite (43 / 2))) = Inr f \<and>
          float_mul f (Finite 100) = Finite q \<and> q = 2150)"
proof -
  let ?ev = "RequestsPost ''https://api-1.adax.no/client-api/rest/v1/control/''
         (PDict [(''rooms'',
            PList [PDict [(''id'', PInt 5), (''targetTemperature'', PInt 2150)]])])
         (Authorization_Bearer (PStr ''t0k3n''))"
  have run: "AdaxAPI_set_temperature online_env api_with_token [] (PInt 5)
               (PFloat (Finite (43 / 2))) = (Inr True, api_with_token, [?ev])"
    by (simp add: AdaxAPI_set_temperature_def online_env_def api_with_token_def ok_response_def raise_for_status_def
        float_mul_21_5 Let_def del: float_mul.simps)
  have mem: "?ev \<in> set (drop (length ([] :: event list)) [?ev])"
    by simp
  from set_temperature_truncates [OF run mem] float_mul_21_5 run show ?thesis
    by (auto simp del: float_mul.simps)
qed

section \<open>Listing the rooms\<close>

text \<open>
  C2, as stated: \<^verbatim>\<open>get_rooms\<close> returns the empty list whenever the status of the
  content request is not of the 2xx range. It does not: \<^verbatim>\<open>raise_for_status\<close> lets the
  status 300 pass, and the rooms of the body are returned.
\<close>

theorem get_rooms_returns_rooms_of_status_300:
  "requests_get multiple_choices_env ''https://api-1.adax.no/client-api/rest/v1/content/''
     (Authorization_Bearer (PStr ''t0k3n'')) =
     Inr \<lparr>status_code = 300, json = Inr (PDict [(''rooms'', PList [room7, room5])])\<rparr>
   \<and> AdaxAPI_get_rooms multiple_choices_env api_with_token [] =
       (Inr (PList [room7, room5]), api_with_token,
        [RequestsGet ''https://api-1.adax.no/client-api/rest/v1/content/''
           (Authorization_Bearer (PStr ''t0k3n''))])"
  by (simp add: AdaxAPI_get_rooms_def multiple_choices_env_def api_with_token_def
      raise_for_status_def Let_def)

text \<open>
  C2, amended: \<^verbatim>\<open>AdaxAPI.get_rooms\<close> never raises, whatever the client holds and
  whatever the network answers. When the client has no token after the refresh attempt,
  the result is the empty list; so it is when \<^verbatim>\<open>requests.get\<close> raises (a transport
  error), and when the status of the response is a client or server error (4xx or 5xx,
  the statuses on which \<^verbatim>\<open>raise_for_status\<close> raises).
\<close>

theorem get_rooms_never_raises:
  assumes "AdaxAPI_get_rooms env a tr = (r, a', tr')"
  shows "(\<exists>rooms. r = Inr rooms)
       \<and> (\<not> truthy (token a') \<longrightarrow> r = Inr (PList []))
       \<and> (\<forall>e. requests_get env (api_url a' @ ''/rest/v1/content/'')
                 (Authorization_Bearer (token a')) = Inl e \<longrightarrow> r = Inr (PList []))
       \<and> (\<forall>resp. requests_get env (api_url a' @ ''/rest/v1/content/'')
                 (Authorization_Bearer (token a')) = Inr resp
               \<and> 400 \<le> status_code resp \<and> status_code resp < 600
              \<longrightarrow> r = Inr (PList []))"
  using assms
  by (auto simp: AdaxAPI_get_rooms_def AdaxAPI_refresh_token_def raise_for_status_def Let_def
      split: if_splits sum.splits option.splits)

theorem get_rooms_never_raises_witness:
  "AdaxAPI_get_rooms online_env api_without_credentials [] =
     (Inr (PList []), api_without_credentials, [Log Error_no_token_rooms])
   \<and> fst (AdaxAPI_get_rooms offline_env api_with_token []) = Inr (PList [])
   \<and> fst (AdaxAPI_get_rooms http_error_env api_with_token []) = Inr (PList [])"
proof -
  have 1: "AdaxAPI_get_rooms online_env api_without_credentials [] =
     (Inr (PList []), api_without_credentials, [Log Error_no_token_rooms])"
    by (simp add: AdaxAPI_get_rooms_def api_without_credentials_def)
  have 2: "AdaxAPI_get_rooms offline_env api_with_token [] =
     (fst (AdaxAPI_get_rooms offline_env api_with_token []), api_with_token,
      snd (snd (AdaxAPI_get_rooms offline_env api_with_token [])))"
    by (simp add: AdaxAPI_get_rooms_def api_with_token_def offline_env_def Let_def)
  have 3: "AdaxAPI_get_rooms http_error_env api_with_token [] =
     (fst (AdaxAPI_get_rooms http_error_env api_with_token []), api_with_token,
      snd (snd (AdaxAPI_get_rooms http_error_env api_with_token [])))"
    by (simp add: AdaxAPI_get_rooms_def api_with_token_def http_error_env_def
        raise_for_status_def Let_def)
  from get_rooms_never_raises [OF 2]
  have "fst (AdaxAPI_get_rooms offline_env api_with_token []) = Inr (PList [])"
    by (simp add: offline_env_def)
  moreover from get_rooms_never_raises [OF 3]
  have "fst (AdaxAPI_get_rooms http_error_env api_with_token []) = Inr (PList [])"
    by (simp add: http_error_env_def)
  ultimately show ?thesis using 1 get_rooms_never_raises [OF 1] by simp
qed

lemma init_without_credentials:
  "AdaxAPI_init env PNone PNone PNone tr = (Inr (), api_without_credentials, tr)"
  by (simp add: AdaxAPI_init_def api_without_credentials_def)

text \<open>
  C8: a client with no token and without both a client id and a client password
  returns the empty list from \<^verbatim>\<open>get_rooms\<close> and issues no network call: the only
  thing added to the trace is the log line, and the client is unchanged.
\<close>

theorem get_rooms_without_credentials:
  assumes "\<not> truthy (token a)"
    and "\<not> (truthy (client_id a) \<and> truthy (client_password a))"
  shows "AdaxAPI_get_rooms env a tr = (Inr (PList []), a, tr @ [Log Error_no_token_rooms])
       \<and> filter is_network_call (snd (snd (AdaxAPI_get_rooms env a tr))) =
           filter is_network_call tr"
  using assms by (auto simp: AdaxAPI_get_rooms_def)

theorem get_rooms_without_credentials_witness:
  "\<not> truthy (token api_without_credentials)
   \<and> \<not> (truthy (client_id api_without_credentials)
          \<and> truthy (client_password api_without_credentials))
   \<and> AdaxAPI_get_rooms online_env api_without_credentials [] =
       (Inr (PList []), api_without_credentials, [Log Error_no_token_rooms])"
proof -
  have 1: "\<not> truthy (token api_without_credentials)"
    by (simp add: api_without_credentials_def)
  have 2: "\<not> (truthy (client_id api_without_credentials)
              \<and> truthy (client_password api_without_credentials))"
    by (simp add: api_without_credentials_def)
  from get_rooms_without_credentials [OF 1 2, of online_env "[]"] 1 2 show ?thesis
    by simp
qed

section \<open>Refreshing the token\<close>

text \<open>
  C3, as stated: whenever the token exchange fails, \<^verbatim>\<open>refresh_token\<close> logs the
  failure. It does not when the exchange fails without an exception of the library: the
  endpoint answers, the answer carries no access token, and the method stores \<^verbatim>\<open>None\<close>
  and logs the debug line of a token obtained; no error line is logged.
\<close>

theorem refresh_token_without_token_logs_no_failure:
  "AdaxAPI_refresh_token no_token_env api_with_password [] =
     (Inr (), api_with_password\<lparr>token := PNone\<rparr>,
      [RequestToken ''https://api-1.adax.no/client-api/auth/token''
         (PStr ''112233'') (PStr ''pw''),
       Log (Debug_token_obtained PNone)])
   \<and> filter is_error_line (snd (snd (AdaxAPI_refresh_token no_token_env api_with_password [])))
       = []"
  by (simp add: AdaxAPI_refresh_token_def no_token_env_def api_with_password_def Let_def)

text \<open>
  C3, amended: no exception escapes \<^verbatim>\<open>AdaxAPI.refresh_token\<close>, and in every invocation
  in which the token exchange raises (any exception of the library, for a transport or
  a protocol error) the method logs the failure and sets the stored token to \<^verbatim>\<open>None\<close>.
\<close>

theorem refresh_token_fails_closed:
  "fst (AdaxAPI_refresh_token env a tr) = Inr ()
   \<and> (\<forall>err. request_token env (api_url a @ ''/auth/token'') (client_id a) (client_password a) =
              Inl err \<longrightarrow>
            AdaxAPI_refresh_token env a tr =
              (Inr (), a\<lparr>token := PNone\<rparr>,
               tr @ [RequestToken (api_url a @ ''/auth/token'') (client_id a)
                       (client_password a),
                     Log (Error_token err)]))"
  by (simp add: AdaxAPI_refresh_token_def Let_def split: sum.splits)

theorem refresh_token_fails_closed_witness:
  "request_token offline_env (api_url api_with_password @ ''/auth/token'')
     (client_id api_with_password) (client_password api_with_password) =
     Inl (LibraryError ''ConnectionError'')
   \<and> AdaxAPI_refresh_token offline_env api_with_password [] =
       (Inr (), api_with_password\<lparr>token := PNone\<rparr>,
        [RequestToken ''https://api-1.adax.no/client-api/auth/token''
           (PStr ''112233'') (PStr ''pw''),
         Log (Error_token (LibraryError ''ConnectionError''))])"
proof -
  have h: "request_token offline_env (api_url api_with_password @ ''/auth/token'')
     (client_id api_with_password) (client_password api_with_password) =
     Inl (LibraryError ''ConnectionError'')"
    by (simp add: offline_env_def)
  from refresh_token_fails_closed [of offline_env api_with_password "[]"] h show ?thesis
    by (simp add: api_with_password_def)
qed

section \<open>Polling an entity\<close>

text \<open>
  The loop of \<^verbatim>\<open>update\<close> passes over the rooms that are objects with another id, and
  uses the first room whose id equals that of the entity.
\<close>

lemma update_loop_skip:
  "\<forall>r\<in>set pre. is_dict r \<and> \<not> py_eq (entry_id r) (room_id d) \<Longrightarrow>
   update_loop env (pre @ rest) d = update_loop env rest d"
proof (induction pre)
  case Nil
  then show ?case by simp
next
  case (Cons x pre)
  then show ?case by (cases x) simp_all
qed

lemma update_loop_no_match:
  "\<forall>r\<in>set rooms. is_dict r \<and> \<not> py_eq (entry_id r) (room_id d) \<Longrightarrow>
   update_loop env rooms d = (Inr (), d)"
  using update_loop_skip [of rooms d env "[]"] by simp

lemma update_loop_first_match:
  assumes "\<forall>r\<in>set pre. is_dict r \<and> \<not> py_eq (entry_id r) (room_id d)"
    and "py_eq (entry_id (PDict kvs)) (room_id d)"
  shows "update_loop env (pre @ PDict kvs # post) d = update_room env kvs d"
  using assms update_loop_skip [of pre d env "PDict kvs # post"] by simp

text \<open>Without a room of the entity's id the loop assigns nothing, however it ends.\<close>

lemma update_loop_unchanged:
  "\<forall>r\<in>set rooms. \<not> (is_dict r \<and> py_eq (entry_id r) (room_id d)) \<Longrightarrow>
   snd (update_loop env rooms d) = d"
proof (induction rooms)
  case Nil
  then show ?case by simp
next
  case (Cons x rooms)
  then show ?case by (cases x) simp_all
qed

lemma update_room_room5:
  "update_room env
     [(''id'', PInt 5), (''temperature'', PInt 2137), (''targetTemperature'', PInt 2200)] d =
     (Inr (), d\<lparr>current_temperature := PFloat (float_literal (2137 / 100)),
                target_temperature := PFloat (float_literal 22)\<rparr>)"
  by (simp add: update_room_def float_literal_def round_double_2137 round_double_2200
      round_double_22)

lemma round_double_1000: "round_double 1000 = Finite 1000"
  by code_simp

lemma round_double_10: "round_double 10 = Finite 10"
  by code_simp

lemma get_rooms_online:
  "AdaxAPI_get_rooms online_env api_with_token [] =
     (Inr (PList ([room7] @ room5 # [])), api_with_token,
      [RequestsGet ''https://api-1.adax.no/client-api/rest/v1/content/''
         (Authorization_Bearer (PStr ''t0k3n''))])"
  by (simp add: AdaxAPI_get_rooms_def online_env_def api_with_token_def ok_response_def
      raise_for_status_def Let_def)

lemma get_rooms_offline:
  "AdaxAPI_get_rooms offline_env api_with_token [] =
     (Inr (PList []), api_with_token,
      [RequestsGet ''https://api-1.adax.no/client-api/rest/v1/content/''
         (Authorization_Bearer (PStr ''t0k3n'')),
       Log (Error_get_rooms (LibraryError ''ConnectionError''))])"
  by (simp add: AdaxAPI_get_rooms_def offline_env_def api_with_token_def Let_def)

lemma get_rooms_duplicate:
  "AdaxAPI_get_rooms duplicate_env api_with_token [] =
     (Inr (PList [PDict [(''id'', PInt 5), (''temperature'', PInt 1000)], room5]),
      api_with_token,
      [RequestsGet ''https://api-1.adax.no/client-api/rest/v1/content/''
         (Authorization_Bearer (PStr ''t0k3n''))])"
  by (simp add: AdaxAPI_get_rooms_def duplicate_env_def api_with_token_def ok_response_def
      raise_for_status_def Let_def)

lemma get_rooms_null:
  "AdaxAPI_get_rooms null_rooms_env api_with_token [] =
     (Inr PNone, api_with_token,
      [RequestsGet ''https://api-1.adax.no/client-api/rest/v1/content/''
         (Authorization_Bearer (PStr ''t0k3n''))])"
  by (simp add: AdaxAPI_get_rooms_def null_rooms_env_def api_with_token_def ok_response_def
      raise_for_status_def Let_def)

lemma get_rooms_number:
  "AdaxAPI_get_rooms number_rooms_env api_with_token [] =
     (Inr (PList [PInt 1]), api_with_token,
      [RequestsGet ''https://api-1.adax.no/client-api/rest/v1/content/''
         (Authorization_Bearer (PStr ''t0k3n''))])"
  by (simp add: AdaxAPI_get_rooms_def number_rooms_env_def api_with_token_def ok_response_def
      raise_for_status_def Let_def)

text \<open>
  C4, as stated: whenever the result of \<^verbatim>\<open>get_rooms\<close> contains the entry
  \<^verbatim>\<open>{"id": 5, "temperature": 2137, "targetTemperature": 2200}\<close>, \<^verbatim>\<open>update\<close> on the entity
  of room 5 yields 21.37 and 22.00. It does not when another entry with the id 5 comes
  first: the loop uses that one and ends. Here the entity gets the current temperature
  10.0 and keeps the target temperature it had.
\<close>

theorem update_uses_first_room5:
  "room5 \<in> set [PDict [(''id'', PInt 5), (''temperature'', PInt 1000)], room5]
   \<and> AdaxAPI_get_rooms duplicate_env api_with_token [] =
       (Inr (PList [PDict [(''id'', PInt 5), (''temperature'', PInt 1000)], room5]),
        api_with_token,
        [RequestsGet ''https://api-1.adax.no/client-api/rest/v1/content/''
           (Authorization_Bearer (PStr ''t0k3n''))])
   \<and> AdaxClimate_update duplicate_env device5 api_with_token [] =
       (Inr (), device5\<lparr>current_temperature := PFloat (Finite 10)\<rparr>, api_with_token,
        [RequestsGet ''https://api-1.adax.no/client-api/rest/v1/content/''
           (Authorization_Bearer (PStr ''t0k3n''))])"
  using get_rooms_duplicate
  by (simp add: AdaxClimate_update_def update_room_def device5_def duplicate_env_def num_eq_def
      round_double_1000 round_double_10)

text \<open>
  C4, amended: when the first entry with the id 5 in the list that \<^verbatim>\<open>get_rooms\<close>
  returns is \<^verbatim>\<open>{"id": 5, "temperature": 2137, "targetTemperature": 2200}\<close>, the entries
  before it being objects with other ids, \<^verbatim>\<open>update\<close> on the entity of room 5 returns
  normally and leaves it with the current temperature \<^verbatim>\<open>21.37\<close> and the target
  temperature \<^verbatim>\<open>22.00\<close> (the floats these literals denote: \<^verbatim>\<open>2137 / 100.0\<close> and
  \<^verbatim>\<open>2200 / 100.0\<close>).
\<close>

theorem update_reads_room5:
  assumes "AdaxAPI_get_rooms env a tr = (Inr (PList (pre @ room5 # post)), a', tr')"
    and "\<forall>r\<in>set pre. is_dict r \<and> \<not> py_eq (entry_id r) (PInt 5)"
    and "room_id d = PInt 5"
  shows "AdaxClimate_update env d a tr =
           (Inr (), d\<lparr>current_temperature := PFloat (float_literal (2137 / 100)),
                      target_temperature := PFloat (float_literal 22)\<rparr>, a', tr')"
proof -
  from assms(2) \<open>room_id d = PInt 5\<close>
  have skip: "\<forall>r\<in>set pre. is_dict r \<and> \<not> py_eq (entry_id r) (room_id d)"
    by simp
  have match: "py_eq (entry_id (PDict [(''id'', PInt 5), (''temperature'', PInt 2137),
                  (''targetTemperature'', PInt 2200)])) (room_id d)"
    using \<open>room_id d = PInt 5\<close> by (simp add: num_eq_def)
  have "update_loop env (pre @ room5 # post) d =
          (Inr (), d\<lparr>current_temperature := PFloat (float_literal (2137 / 100)),
                     target_temperature := PFloat (float_literal 22)\<rparr>)"
    unfolding room5_def
    using update_loop_first_match [OF skip match] update_room_room5 by simp
  with assms(1) show ?thesis
    by (simp add: AdaxClimate_update_def)
qed

theorem update_reads_room5_witness:
  "AdaxAPI_get_rooms online_env api_with_token [] =
     (Inr (PList ([room7] @ room5 # [])), api_with_token,
      [RequestsGet ''https://api-1.adax.no/client-api/rest/v1/content/''
         (Authorization_Bearer (PStr ''t0k3n''))])
   \<and> is_dict room7 \<and> \<not> py_eq (entry_id room7) (PInt 5) \<and> room_id device5 = PInt 5
   \<and> AdaxClimate_update online_env device5 api_with_token [] =
       (Inr (),
        device5\<lparr>current_temperature := PFloat (Finite (6015120252306719 / 281474976710656)),
                target_temperature := PFloat (Finite 22)\<rparr>,
        api_with_token,
        [RequestsGet ''https://api-1.adax.no/client-api/rest/v1/content/''
           (Authorization_Bearer (PStr ''t0k3n''))])"
proof -
  have p: "\<forall>r\<in>set [room7]. is_dict r \<and> \<not> py_eq (entry_id r) (PInt 5)"
    by (simp add: room7_def num_eq_def)
  have i: "room_id device5 = PInt 5"
    by (simp add: device5_def)
  from update_reads_room5 [OF get_rooms_online p i] get_rooms_online p i
  show ?thesis
    by (simp add: float_literal_def round_double_21_37 round_double_22)
qed

text \<open>
  C5, as stated: for every result of \<^verbatim>\<open>get_rooms\<close> without an entry of the entity's
  id, \<^verbatim>\<open>update\<close> surfaces no error. It does when the result is not a list of objects:
  for the body \<^verbatim>\<open>{"rooms": null}\<close> the loop raises \<^verbatim>\<open>TypeError\<close>, for \<^verbatim>\<open>{"rooms": [1]}\<close>
  the call \<^verbatim>\<open>room.get\<close> raises \<^verbatim>\<open>AttributeError\<close>. The entity is as it was in both.
\<close>

theorem update_raises_on_malformed_rooms:
  "AdaxClimate_update null_rooms_env device9 api_with_token [] =
     (Inl TypeError, device9, api_with_token,
      [RequestsGet ''https://api-1.adax.no/client-api/rest/v1/content/''
         (Authorization_Bearer (PStr ''t0k3n''))])
   \<and> AdaxClimate_update number_rooms_env device9 api_with_token [] =
     (Inl AttributeError, device9, api_with_token,
      [RequestsGet ''https://api-1.adax.no/client-api/rest/v1/content/''
         (Authorization_Bearer (PStr ''t0k3n''))])"
  using get_rooms_null get_rooms_number
  by (simp add: AdaxClimate_update_def)

text \<open>
  C5, amended: for every entity and every result of \<^verbatim>\<open>get_rooms\<close> none of whose
  elements is an object with the id of the entity (the empty list is one), \<^verbatim>\<open>update\<close>
  leaves the entity as it was, its current and target temperature with it; and when the
  result is a list of objects, \<^verbatim>\<open>update\<close> returns normally.
\<close>

theorem update_without_match:
  assumes "AdaxAPI_get_rooms env a tr = (Inr v, a', tr')"
    and "\<forall>r\<in>set (py_elements v). \<not> (is_dict r \<and> py_eq (entry_id r) (room_id d))"
  shows "fst (snd (AdaxClimate_update env d a tr)) = d
       \<and> (\<forall>rooms. v = PList rooms \<and> (\<forall>r\<in>set rooms. is_dict r) \<longrightarrow>
             AdaxClimate_update env d a tr = (Inr (), d, a', tr'))"
proof -
  have frame: "fst (snd (AdaxClimate_update env d a tr)) = d"
  proof (cases "py_iter v")
    case (Inl e)
    with assms(1) show ?thesis
      by (simp add: AdaxClimate_update_def)
  next
    case (Inr rs)
    with assms(2) have "snd (update_loop env rs d) = d"
      by (simp add: py_elements_def update_loop_unchanged)
    with assms(1) Inr show ?thesis
      by (auto simp: AdaxClimate_update_def split: prod.splits)
  qed
  have "AdaxClimate_update env d a tr = (Inr (), d, a', tr')"
    if "v = PList rooms" and "\<forall>r\<in>set rooms. is_dict r" for rooms
  proof -
    from that assms(2)
    have "\<forall>r\<in>set rooms. is_dict r \<and> \<not> py_eq (entry_id r) (room_id d)"
      by (simp add: py_elements_def)
    from update_loop_no_match [OF this] assms(1) that(1) show ?thesis
      by (simp add: AdaxClimate_update_def)
  qed
  with frame show ?thesis by blast
qed

theorem update_without_match_witness:
  "AdaxClimate_update offline_env device9 api_with_token [] =
     (Inr (), device9, api_with_token,
      [RequestsGet ''https://api-1.adax.no/client-api/rest/v1/content/''
         (Authorization_Bearer (PStr ''t0k3n'')),
       Log (Error_get_rooms (LibraryError ''ConnectionError''))])
   \<and> AdaxClimate_update online_env device9 api_with_token [] =
     (Inr (), device9, api_with_token,
      [RequestsGet ''https://api-1.adax.no/client-api/rest/v1/content/''
         (Authorization_Bearer (PStr ''t0k3n''))])
   \<and> fst (snd (AdaxClimate_update number_rooms_env device9 api_with_token [])) = device9"
proof -
  have e: "\<forall>r\<in>set (py_elements (PList [])).
             \<not> (is_dict r \<and> py_eq (entry_id r) (room_id device9))"
    by (simp add: py_elements_def)
  have n: "\<forall>r\<in>set (py_elements (PList ([room7] @ room5 # []))).
             \<not> (is_dict r \<and> py_eq (entry_id r) (room_id device9))"
    by (simp add: py_elements_def room7_def room5_def device9_def num_eq_def)
  have m: "\<forall>r\<in>set (py_elements (PList [PInt 1])).
             \<not> (is_dict r \<and> py_eq (entry_id r) (room_id device9))"
    by (simp add: py_elements_def)
  have d: "\<forall>r\<in>set ([room7] @ room5 # []). is_dict r"
    by (simp add: room7_def room5_def)
  from update_without_match [OF get_rooms_offline e]
    update_without_match [OF get_rooms_online n]
    update_without_match [OF get_rooms_number m] d
  show ?thesis by simp
qed

lemma update_room_keeps_current:
  "map_of kvs ''temperature'' = None \<Longrightarrow>
   current_temperature (snd (update_room env kvs d)) = current_temperature d"
  by (simp add: update_room_def split: sum.splits)

lemma update_room_keeps_target:
  "map_of kvs ''targetTemperature'' = None \<Longrightarrow>
   target_temperature (snd (update_room env kvs d)) = target_temperature d"
  by (simp add: update_room_def split: sum.splits)

lemma get_rooms_partial:
  "AdaxAPI_get_rooms partial_env api_with_token [] =
     (Inr (PList ([] @ PDict [(''id'', PInt 9), (''temperature'', PInt 2200)] # [])),
      api_with_token,
      [RequestsGet ''https://api-1.adax.no/client-api/rest/v1/content/''
         (Authorization_Bearer (PStr ''t0k3n''))])"
  by (simp add: AdaxAPI_get_rooms_def partial_env_def api_with_token_def ok_response_def raise_for_status_def Let_def)

text \<open>
  C10: when the loop of \<^verbatim>\<open>update\<close> reaches the room whose id equals that of the
  entity (the rooms before it being objects with other ids), a field is assigned only
  from a key that is there: without the key \<^verbatim>\<open>temperature\<close> the current temperature
  stays as it was, without the key \<^verbatim>\<open>targetTemperature\<close> the target temperature
  stays as it was, whether or not \<^verbatim>\<open>update\<close> then returns normally.
\<close>

theorem update_overwrites_present_keys_only:
  assumes "AdaxAPI_get_rooms env a tr = (Inr (PList (pre @ PDict kvs # post)), a', tr')"
    and "\<forall>r\<in>set pre. is_dict r \<and> \<not> py_eq (entry_id r) (room_id d)"
    and "py_eq (entry_id (PDict kvs)) (room_id d)"
  shows "(map_of kvs ''temperature'' = None \<longrightarrow>
            current_temperature (fst (snd (AdaxClimate_update env d a tr))) =
              current_temperature d)
       \<and> (map_of kvs ''targetTemperature'' = None \<longrightarrow>
            target_temperature (fst (snd (AdaxClimate_update env d a tr))) =
              target_temperature d)"
proof -
  from update_loop_first_match [OF assms(2,3)]
  have "update_loop env (pre @ PDict kvs # post) d = update_room env kvs d" .
  with assms(1) have "fst (snd (AdaxClimate_update env d a tr)) = snd (update_room env kvs d)"
    by (simp add: AdaxClimate_update_def split: prod.splits)
  then show ?thesis
    by (simp add: update_room_keeps_current update_room_keeps_target)
qed

theorem update_overwrites_present_keys_only_witness:
  "py_eq (entry_id (PDict [(''id'', PInt 9), (''temperature'', PInt 2200)])) (room_id device9)
   \<and> map_of [(''id'', PInt 9), (''temperature'', PInt 2200)] ''targetTemperature'' = None
   \<and> target_temperature (fst (snd (AdaxClimate_update partial_env device9 api_with_token []))) =
       PFloat (Finite 20)
   \<and> current_temperature (fst (snd (AdaxClimate_update partial_env device9 api_with_token []))) =
       PFloat (Finite 22)"
proof -
  have p: "\<forall>r\<in>set []. is_dict r \<and> \<not> py_eq (entry_id r) (room_id device9)"
    by simp
  have m: "py_eq (entry_id (PDict [(''id'', PInt 9), (''temperature'', PInt 2200)]))
             (room_id device9)"
    by (simp add: device9_def num_eq_def)
  have k: "map_of [(''id'', PInt 9), (''temperature'', PInt 2200)] ''targetTemperature'' = None"
    by simp
  have c: "current_temperature
             (fst (snd (AdaxClimate_update partial_env device9 api_with_token []))) =
           PFloat (Finite 22)"
    using get_rooms_partial
    by (simp add: AdaxClimate_update_def update_room_def device9_def num_eq_def partial_env_def
        round_double_2200 round_double_22)
  from update_overwrites_present_keys_only [OF get_rooms_partial p m] k
  have "target_temperature (fst (snd (AdaxClimate_update partial_env device9 api_with_token []))) =
          target_temperature device9"
    by simp
  with m k c show ?thesis
    by (simp add: device9_def)
qed

section \<open>Setting the target temperature of an entity\<close>

lemma api_set_temperature_online:
  "AdaxAPI_set_temperature online_env api_with_token [] (PInt 9) (PFloat (Finite (43 / 2))) =
     (Inr True, api_with_token,
      [RequestsPost ''https://api-1.adax.no/client-api/rest/v1/control/''
         (PDict [(''rooms'',
            PList [PDict [(''id'', PInt 9), (''targetTemperature'', PInt 2150)]])])
         (Authorization_Bearer (PStr ''t0k3n''))])"
  by (simp add: AdaxAPI_set_temperature_def online_env_def api_with_token_def ok_response_def raise_for_status_def
      float_mul_21_5 Let_def del: float_mul.simps)

lemma api_set_temperature_offline:
  "AdaxAPI_set_temperature offline_env api_with_token [] (PInt 9) (PFloat (Finite (43 / 2))) =
     (Inr False, api_with_token,
      [RequestsPost ''https://api-1.adax.no/client-api/rest/v1/control/''
         (PDict [(''rooms'',
            PList [PDict [(''id'', PInt 9), (''targetTemperature'', PInt 2150)]])])
         (Authorization_Bearer (PStr ''t0k3n'')),
       Log (Error_set_temperature (PInt 9) (LibraryError ''ConnectionError''))])"
  by (simp add: AdaxAPI_set_temperature_def offline_env_def api_with_token_def
      float_mul_21_5 Let_def del: float_mul.simps)

text \<open>
  C6: \<^verbatim>\<open>AdaxClimate.set_temperature\<close> called without the keyword \<^verbatim>\<open>temperature\<close>, or
  with \<^verbatim>\<open>temperature=None\<close>, returns at once: the entity and the client are as they
  were and the trace is the same, so \<^verbatim>\<open>AdaxAPI.set_temperature\<close> was not called and no
  request was sent.
\<close>

theorem set_temperature_absent:
  assumes "map_of kwargs ''temperature'' = None \<or> map_of kwargs ''temperature'' = Some PNone"
  shows "AdaxClimate_set_temperature env d a tr kwargs = (Inr (), d, a, tr)"
  using assms by (auto simp: AdaxClimate_set_temperature_def)

theorem set_temperature_absent_witness:
  "AdaxClimate_set_temperature online_env device9 api_with_token [] [] =
     (Inr (), device9, api_with_token, [])
   \<and> AdaxClimate_set_temperature online_env device9 api_with_token []
       [(''temperature'', PNone)] = (Inr (), device9, api_with_token, [])"
proof -
  have 1: "map_of ([] :: (string \<times> pyval) list) ''temperature'' = None
           \<or> map_of ([] :: (string \<times> pyval) list) ''temperature'' = Some PNone"
    by simp
  have 2: "map_of [(''temperature'', PNone)] ''temperature'' = None
           \<or> map_of [(''temperature'', PNone)] ''temperature'' = Some PNone"
    by simp
  from set_temperature_absent [OF 1] set_temperature_absent [OF 2] show ?thesis
    by simp
qed

text \<open>
  C7: with a temperature \<open>t\<close> that is not \<^verbatim>\<open>None\<close>, when \<^verbatim>\<open>AdaxAPI.set_temperature\<close>
  returns \<^verbatim>\<open>True\<close> the entity's target temperature becomes \<open>t\<close> and the host is asked
  to re-render (\<^verbatim>\<open>schedule_update_ha_state\<close>); when it returns \<^verbatim>\<open>False\<close> the entity
  is as it was. Either way \<^verbatim>\<open>AdaxClimate.set_temperature\<close> returns normally.
\<close>

theorem set_temperature_present:
  assumes "map_of kwargs ''temperature'' = Some t"
    and "t \<noteq> PNone"
    and "AdaxAPI_set_temperature env a tr (room_id d) t = (Inr ok, a', tr')"
  shows "AdaxClimate_set_temperature env d a tr kwargs =
           (if ok
            then (Inr (), d\<lparr>target_temperature := t\<rparr>, a', tr' @ [ScheduleUpdateHaState])
            else (Inr (), d, a', tr'))"
  using assms by (simp add: AdaxClimate_set_temperature_def)

theorem set_temperature_present_witness:
  "AdaxClimate_set_temperature online_env device9 api_with_token []
       [(''temperature'', PFloat (Finite (43 / 2)))] =
     (Inr (), device9\<lparr>target_temperature := PFloat (Finite (43 / 2))\<rparr>, api_with_token,
      [RequestsPost ''https://api-1.adax.no/client-api/rest/v1/control/''
         (PDict [(''rooms'',
            PList [PDict [(''id'', PInt 9), (''targetTemperature'', PInt 2150)]])])
         (Authorization_Bearer (PStr ''t0k3n'')),
       ScheduleUpdateHaState])
   \<and> AdaxClimate_set_temperature offline_env device9 api_with_token []
       [(''temperature'', PFloat (Finite (43 / 2)))] =
     (Inr (), device9, api_with_token,
      [RequestsPost ''https://api-1.adax.no/client-api/rest/v1/control/''
         (PDict [(''rooms'',
            PList [PDict [(''id'', PInt 9), (''targetTemperature'', PInt 2150)]])])
         (Authorization_Bearer (PStr ''t0k3n'')),
       Log (Error_set_temperature (PInt 9) (LibraryError ''ConnectionError''))])"
proof -
  have k: "map_of [(''temperature'', PFloat (Finite (43 / 2)))] ''temperature'' =
             Some (PFloat (Finite (43 / 2)))"
    by simp
  have t: "PFloat (Finite (43 / 2)) \<noteq> PNone"
    by simp
  have i: "room_id device9 = PInt 9"
    by (simp add: device9_def)
  from set_temperature_present [OF k t api_set_temperature_online [folded i]]
    set_temperature_present [OF k t api_set_temperature_offline [folded i]]
  show ?thesis by (simp add: i)
qed

section \<open>The HVAC mode\<close>

lemma update_room_hvac_mode: "hvac_mode (snd (update_room env kvs d)) = hvac_mode d"
  by (simp add: update_room_def split: sum.splits)

lemma update_loop_hvac_mode: "hvac_mode (snd (update_loop env rooms d)) = hvac_mode d"
proof (induction rooms)
  case Nil
  then show ?case by simp
next
  case (Cons rm rooms)
  then show ?case by (cases rm) (simp_all add: update_room_hvac_mode)
qed

lemma AdaxClimate_update_hvac_mode:
  "hvac_mode (fst (snd (AdaxClimate_update env d a tr))) = hvac_mode d"
proof -
  have "hvac_mode d1 = hvac_mode d" if "update_loop env rs d = (r, d1)" for rs r d1
    using update_loop_hvac_mode [of env rs d] that by simp
  then show ?thesis
    by (auto simp: AdaxClimate_update_def split: prod.splits sum.splits)
qed

lemma AdaxClimate_set_temperature_hvac_mode:
  "hvac_mode (fst (snd (AdaxClimate_set_temperature env d a tr kwargs))) = hvac_mode d"
  by (simp add: AdaxClimate_set_temperature_def Let_def split: prod.splits sum.splits)

lemma run_hvac_mode: "hvac_mode (fst (run ops (d, a, tr))) = hvac_mode d"
proof (induction ops arbitrary: d a tr)
  case Nil
  then show ?case by simp
next
  case (Cons step ops)
  obtain env op where step: "step = (env, op)" by (cases step)
  show ?case
  proof (cases op)
    case Poll
    obtain r d1 a1 tr1 where u: "AdaxClimate_update env d a tr = (r, d1, a1, tr1)"
      by (metis prod_cases4)
    with AdaxClimate_update_hvac_mode [of env d a tr] have "hvac_mode d1 = hvac_mode d"
      by simp
    with Cons.IH [of d1 a1 tr1] u step Poll show ?thesis by simp
  next
    case (SetTarget kwargs)
    obtain r d1 a1 tr1 where
      u: "AdaxClimate_set_temperature env d a tr kwargs = (r, d1, a1, tr1)"
      by (metis prod_cases4)
    with AdaxClimate_set_temperature_hvac_mode [of env d a tr kwargs]
    have "hvac_mode d1 = hvac_mode d" by simp
    with Cons.IH [of d1 a1 tr1] u step SetTarget show ?thesis by simp
  qed
qed

lemma init_room5: "AdaxClimate_init room5 = Inr device5"
  by (simp add: AdaxClimate_init_def room5_def device5_def)

text \<open>
  C9: an entity is constructed with the HVAC mode \<^verbatim>\<open>HEAT\<close>, and after any sequence of
  \<^verbatim>\<open>update\<close> and \<^verbatim>\<open>set_temperature\<close> calls, against any network, its mode is still
  \<^verbatim>\<open>HEAT\<close>: it is never \<^verbatim>\<open>OFF\<close>, although \<^verbatim>\<open>hvac_modes\<close> lists \<^verbatim>\<open>OFF\<close> and \<^verbatim>\<open>HEAT\<close>.
\<close>

theorem hvac_mode_fixed_at_heat:
  assumes "AdaxClimate_init rm = Inr d"
  shows "hvac_mode d = HVAC_MODE_HEAT
       \<and> hvac_mode (fst (run ops (d, a, tr))) = HVAC_MODE_HEAT
       \<and> hvac_mode (fst (run ops (d, a, tr))) \<noteq> HVAC_MODE_OFF
       \<and> hvac_modes (fst (run ops (d, a, tr))) = [HVAC_MODE_OFF, HVAC_MODE_HEAT]"
proof -
  from assms have "hvac_mode d = HVAC_MODE_HEAT"
    by (auto simp: AdaxClimate_init_def split: sum.splits pyval.splits)
  then show ?thesis
    by (simp add: run_hvac_mode hvac_modes_def)
qed

theorem hvac_mode_fixed_at_heat_witness:
  "AdaxClimate_init room5 = Inr device5
   \<and> hvac_mode (fst (run [(online_env, Poll),
                            (offline_env, SetTarget [(''temperature'', PInt 21)]),
                            (online_env, SetTarget [(''temperature'', PInt 21)])]
                       (device5, api_with_token, []))) = HVAC_MODE_HEAT"
  using hvac_mode_fixed_at_heat [OF init_room5] init_room5 by blast

end
